theory Spec2Isabelle
  imports Main "HOL-Library.Sublist"
begin

section \<open>Python values used by app.py\<close>

text \<open>
  A caught exception is represented by its message, the string that the f-strings of
  \<open>get_post\<close> interpolate (\<open>str(e)\<close>). A computation that may raise returns
  \<open>exn + 'a\<close>, with \<open>Inl\<close> for the exception.
\<close>

type_synonym exn = string

definition bind_exn :: "exn + 'a \<Rightarrow> ('a \<Rightarrow> exn + 'b) \<Rightarrow> exn + 'b" where
  "bind_exn m f = (case m of Inl e \<Rightarrow> Inl e | Inr x \<Rightarrow> f x)"

text \<open>
  Python strings are modelled as \<open>string\<close>, a character standing for a code point below
  256. \<open>str.strip()\<close> removes the characters for which \<open>str.isspace\<close> holds; below 256
  these are TAB, LF, VT, FF, CR, FS, GS, RS, US, SPACE, NEL and NBSP.
\<close>

definition is_space :: "char \<Rightarrow> bool" where
  "is_space c = (of_char c \<in> {9, 10, 11, 12, 13, 28, 29, 30, 31, 32, 133, 160 :: nat})"

definition strip :: "string \<Rightarrow> string" where
  "strip s = rev (dropWhile is_space (rev (dropWhile is_space s)))"

fun join :: "string \<Rightarrow> string list \<Rightarrow> string" where
  "join sep [] = []"
| "join sep [x] = x"
| "join sep (x # y # ys) = x @ sep @ join sep (y # ys)"

text \<open>Truthiness of an optional string: \<open>None\<close> and the empty string are falsy.\<close>

definition truthy_str :: "string option \<Rightarrow> bool" where
  "truthy_str v = (case v of None \<Rightarrow> False | Some s \<Rightarrow> s \<noteq> [])"

section \<open>The tree built by the HTML parser\<close>

text \<open>
  The navigable tree of BeautifulSoup: a \<open>Tag\<close> with its name, its attribute dictionary
  and its contents, or a string. \<open>NavigableString\<close> stands for the string classes that
  \<open>get_text\<close> returns (NavigableString, CData), \<open>OtherString\<close> for those it leaves out
  (comments, declarations and the like). The BeautifulSoup object itself is a \<open>Tag\<close>
  (named \<open>[document]\<close>).
\<close>

datatype node =
    Tag string "(string \<times> string) list" "node list"
  | NavigableString string
  | OtherString string

fun descendants :: "node \<Rightarrow> node list" where
  "descendants (Tag n a cs) = concat (map (\<lambda>c. c # descendants c) cs)"
| "descendants (NavigableString s) = []"
| "descendants (OtherString s) = []"

fun is_tag_named :: "string \<Rightarrow> node \<Rightarrow> bool" where
  "is_tag_named nm (Tag n a cs) = (n = nm)"
| "is_tag_named nm (NavigableString s) = False"
| "is_tag_named nm (OtherString s) = False"

text \<open>\<open>el.find(name)\<close>: the first descendant tag of that name in document order.\<close>

definition bs_find :: "string \<Rightarrow> node \<Rightarrow> node option" where
  "bs_find nm el = List.find (is_tag_named nm) (descendants el)"

text \<open>
  \<open>el.string\<close>: the single string child of a tag, looked up through single tag
  children; \<open>None\<close> when the tag has no or several children.
\<close>

fun tag_string :: "node \<Rightarrow> string option" where
  "tag_string (Tag n a [c]) = tag_string c"
| "tag_string (Tag n a cs) = None"
| "tag_string (NavigableString s) = Some s"
| "tag_string (OtherString s) = Some s"

fun tag_get :: "node \<Rightarrow> string \<Rightarrow> string option" where
  "tag_get (Tag n a cs) k = map_of a k"
| "tag_get (NavigableString s) k = None"
| "tag_get (OtherString s) k = None"

fun text_of :: "node \<Rightarrow> string list" where
  "text_of (NavigableString s) = [s]"
| "text_of (Tag n a cs) = []"
| "text_of (OtherString s) = []"

text \<open>
  \<open>el.get_text("\n", strip=True)\<close>: the strings below \<open>el\<close>, each stripped, the empty
  ones dropped, joined by a newline.
\<close>

definition get_text :: "node \<Rightarrow> string" where
  "get_text el =
     join [CHR 0x0A] (filter (\<lambda>s. s \<noteq> []) (map strip (concat (map text_of (descendants el)))))"

text \<open>
  Attribute access and method calls on a value that may be \<open>None\<close>: Python raises
  AttributeError on \<open>None\<close>. A tag is always truthy.
\<close>

definition attribute_error :: "string \<Rightarrow> exn" where
  "attribute_error a = ''NoneType object has no attribute '' @ a"

definition truthy_tag :: "node option \<Rightarrow> bool" where
  "truthy_tag v = (case v of None \<Rightarrow> False | Some t \<Rightarrow> True)"

definition or_tag :: "node option \<Rightarrow> node option \<Rightarrow> node option" where
  "or_tag a b = (if truthy_tag a then a else b)"

definition dot_string :: "node option \<Rightarrow> exn + string option" where
  "dot_string v = (case v of None \<Rightarrow> Inl (attribute_error ''string'') | Some t \<Rightarrow> Inr (tag_string t))"

definition dot_strip :: "string option \<Rightarrow> exn + string" where
  "dot_strip v = (case v of None \<Rightarrow> Inl (attribute_error ''strip'') | Some s \<Rightarrow> Inr (strip s))"

definition dot_find :: "node option \<Rightarrow> string \<Rightarrow> exn + node option" where
  "dot_find v nm = (case v of None \<Rightarrow> Inl (attribute_error ''find'') | Some t \<Rightarrow> Inr (bs_find nm t))"

definition dot_get :: "node option \<Rightarrow> string \<Rightarrow> exn + string option" where
  "dot_get v k = (case v of None \<Rightarrow> Inl (attribute_error ''get'') | Some t \<Rightarrow> Inr (tag_get t k))"

definition dot_get_text :: "node option \<Rightarrow> exn + string" where
  "dot_get_text v = (case v of None \<Rightarrow> Inl (attribute_error ''get_text'') | Some t \<Rightarrow> Inr (get_text t))"

section \<open>The heuristic extractor\<close>

text \<open>
  \<open>_readability_extract\<close> (app.py, lines 38 to 45). The HTML parser is an external
  library and is a parameter: \<open>BeautifulSoup html\<close> is the tree it builds, or the
  exception it raises. The result is the triple \<open>(text, title, hero)\<close>.
\<close>

definition readability_extract ::
  "(string \<Rightarrow> exn + node) \<Rightarrow> string \<Rightarrow> exn + (string \<times> string option \<times> string option)" where
  "readability_extract BeautifulSoup html =
     bind_exn (BeautifulSoup html) (\<lambda>soup.
     bind_exn
       (if truthy_tag (bs_find ''title'' soup)
        then bind_exn (dot_string (bs_find ''title'' soup)) (\<lambda>s.
               if truthy_str s
               then bind_exn (dot_string (bs_find ''title'' soup)) (\<lambda>s'.
                    bind_exn (dot_strip s') (\<lambda>r. Inr (Some r)))
               else Inr None)
        else Inr None) (\<lambda>title.
     let article = or_tag (bs_find ''article'' soup)
                     (or_tag (bs_find ''main'' soup) (bs_find ''body'' soup)) in
     bind_exn (if truthy_tag article then dot_find article ''img'' else Inr article) (\<lambda>found.
     let img = or_tag found (bs_find ''img'' soup) in
     bind_exn
       (if truthy_tag img
        then bind_exn (dot_get img ''src'') (\<lambda>s.
               if truthy_str s then dot_get img ''src'' else Inr None)
        else Inr None) (\<lambda>hero.
     bind_exn (if truthy_tag article then dot_get_text article else Inr (get_text soup)) (\<lambda>text.
     Inr (text, title, hero))))))"

section \<open>The content-resolution endpoint\<close>

text \<open>
  \<open>PostOut\<close> (app.py, lines 12 to 23). An \<open>Optional[str]\<close> field is a
  \<open>string option\<close>. The field \<open>text\<close> is named \<open>plain_text\<close> here.
\<close>

record PostOut =
  url :: string
  canonical_url :: "string option"
  title :: "string option"
  author :: "string option"
  publication :: "string option"
  published_at :: "string option"
  hero_image :: "string option"
  html :: "string option"
  plain_text :: "string option"
  sha256 :: "string option"
  source :: string

datatype http_exception = HTTPException nat string

text \<open>The part of an httpx response that \<open>get_post\<close> reads: \<open>r.url\<close>, the status, \<open>r.text\<close>.\<close>

record response =
  r_url :: string
  r_status_code :: nat
  r_text :: string

text \<open>
  The external collaborators of \<open>get_post\<close>, as parameters. Each field gives the outcome
  of one library call: the value returned, or the exception raised.
  \<^item> \<open>client_get_head\<close>: \<open>client.get(url)\<close> of line 53 (redirects followed);
  \<^item> \<open>Post\<close>, \<open>get_metadata\<close>, \<open>get_content\<close>: the substack_api calls of lines 60 to 63;
    the metadata is given by its \<open>md.get\<close>, and metadata values and contents are
    strings or \<open>None\<close>, the types \<open>PostOut\<close> declares for them;
  \<^item> \<open>client_get_r\<close>: \<open>client.get(final_url)\<close> of line 82;
  \<^item> \<open>status_error\<close>: the message of the error \<open>raise_for_status\<close> raises;
  \<^item> \<open>BeautifulSoup\<close>: the HTML parser;
  \<^item> \<open>hostname\<close>: \<open>urlparse(u).hostname\<close>, on the URL of an httpx response (a well-formed
    URL, on which \<open>urlparse\<close> does not raise);
  \<^item> \<open>sha256_hexdigest\<close>: \<open>hashlib.sha256(t.encode("utf-8")).hexdigest()\<close>.
\<close>

record 'p env =
  client_get_head :: "string \<Rightarrow> exn + response"
  Post :: "string \<Rightarrow> exn + 'p"
  get_metadata :: "'p \<Rightarrow> exn + (string \<Rightarrow> string option)"
  get_content :: "'p \<Rightarrow> bool \<Rightarrow> exn + string option"
  client_get_r :: "string \<Rightarrow> exn + response"
  status_error :: "response \<Rightarrow> exn"
  BeautifulSoup :: "string \<Rightarrow> exn + node"
  hostname :: "string \<Rightarrow> string option"
  sha256_hexdigest :: "string \<Rightarrow> string"

text \<open>
  The calls made to the outside are recorded in order, so that a stage that is not
  attempted shows as a call that is not in the trace.
\<close>

datatype event = HTTP_GET string | Post_init string | Get_metadata | Get_content bool

type_synonym 'a io = "event list \<times> (exn + 'a)"

definition call :: "event \<Rightarrow> exn + 'a \<Rightarrow> 'a io" where
  "call ev outcome = ([ev], outcome)"

definition pure :: "exn + 'a \<Rightarrow> 'a io" where
  "pure outcome = ([], outcome)"

definition io_bind :: "'a io \<Rightarrow> ('a \<Rightarrow> 'b io) \<Rightarrow> 'b io" where
  "io_bind m f =
     (case m of
        (t, Inl e) \<Rightarrow> (t, Inl e)
      | (t, Inr x) \<Rightarrow> (case f x of (t', r) \<Rightarrow> (t @ t', r)))"

text \<open>\<open>r.raise_for_status()\<close>: raises unless the status is 2xx.\<close>

definition raise_for_status :: "'p env \<Rightarrow> response \<Rightarrow> exn + response" where
  "raise_for_status env r =
     (if 200 \<le> r_status_code r \<and> r_status_code r \<le> 299 then Inr r
      else Inl (status_error env r))"

text \<open>\<open>hashlib.sha256(text.encode("utf-8")).hexdigest() if text else None\<close> (lines 64, 86).\<close>

definition sha_of :: "'p env \<Rightarrow> string option \<Rightarrow> string option" where
  "sha_of env text =
     (if truthy_str text then map_option (sha256_hexdigest env) text else None)"

text \<open>\<open>a or b\<close> on an optional string and a string.\<close>

definition or_str :: "string option \<Rightarrow> string \<Rightarrow> string" where
  "or_str a b = (case a of None \<Rightarrow> b | Some s \<Rightarrow> if s \<noteq> [] then s else b)"

text \<open>Step 1 (lines 51 to 54): the body of the first \<open>try\<close>.\<close>

definition normalize_url :: "'p env \<Rightarrow> string \<Rightarrow> string io" where
  "normalize_url env u =
     io_bind (call (HTTP_GET u) (client_get_head env u)) (\<lambda>head.
     pure (Inr (r_url head)))"

text \<open>Step 2 (lines 60 to 77): the body of the second \<open>try\<close>.\<close>

definition structured_attempt :: "'p env \<Rightarrow> string \<Rightarrow> PostOut io" where
  "structured_attempt env final_url =
     io_bind (call (Post_init final_url) (Post env final_url)) (\<lambda>p.
     io_bind (call Get_metadata (get_metadata env p)) (\<lambda>md.
     io_bind (call (Get_content True) (get_content env p True)) (\<lambda>html_v.
     io_bind (call (Get_content False) (get_content env p False)) (\<lambda>text.
     let sha = sha_of env text in
     pure (Inr \<lparr>
       url = final_url,
       canonical_url = Some (or_str (md ''canonical_url'') final_url),
       title = md ''title'',
       author = md ''author'',
       publication = md ''publication'',
       published_at = md ''published_at'',
       hero_image = md ''hero_image'',
       html = html_v,
       plain_text = text,
       sha256 = sha,
       source = ''substack_api'' \<rparr>)))))"

text \<open>Step 3 (lines 81 to 99): the body of the inner \<open>try\<close>.\<close>

definition generic_fallback :: "'p env \<Rightarrow> string \<Rightarrow> PostOut io" where
  "generic_fallback env final_url =
     io_bind (call (HTTP_GET final_url) (client_get_r env final_url)) (\<lambda>r.
     io_bind (pure (raise_for_status env r)) (\<lambda>_.
     let html_v = r_text r in
     io_bind (pure (readability_extract (BeautifulSoup env) html_v)) (\<lambda>(text, title_guess, hero).
     let sha = sha_of env (Some text) in
     pure (Inr \<lparr>
       url = final_url,
       canonical_url = Some (r_url r),
       title = title_guess,
       author = None,
       publication = hostname env (r_url r),
       published_at = None,
       hero_image = hero,
       html = Some html_v,
       plain_text = Some text,
       sha256 = sha,
       source = ''generic-fetch'' \<rparr>))))"

text \<open>
  \<open>get_post\<close> (lines 48 to 105): the three \<open>try\<close> blocks and their handlers. The result
  is the response model, or the \<open>HTTPException\<close> raised, with the trace of the calls made.
\<close>

definition get_post :: "'p env \<Rightarrow> string \<Rightarrow> event list \<times> (http_exception + PostOut)" where
  "get_post env u =
     (case normalize_url env u of
        (t1, Inl e) \<Rightarrow> (t1, Inl (HTTPException 502 (''URL normalize failed: '' @ e)))
      | (t1, Inr final_url) \<Rightarrow>
          (case structured_attempt env final_url of
             (t2, Inr out) \<Rightarrow> (t1 @ t2, Inr out)
           | (t2, Inl e) \<Rightarrow>
               (case generic_fallback env final_url of
                  (t3, Inr out) \<Rightarrow> (t1 @ t2 @ t3, Inr out)
                | (t3, Inl e2) \<Rightarrow>
                    (t1 @ t2 @ t3,
                     Inl (HTTPException 502
                       (''substack_api failed: '' @ e @ ''; fallback fetch failed: '' @ e2))))))"

section \<open>The extractor's fallback chain, as the specification words it\<close>

text \<open>
  These definitions follow the specification's description of the content region and of
  the hero image; they are compared below with what \<open>readability_extract\<close> computes.
\<close>

text \<open>
  The content region: the first \<open>article\<close> element, else the first \<open>main\<close> element, else
  the body, else the whole document.
\<close>

definition content_region :: "node \<Rightarrow> node" where
  "content_region soup =
     (case bs_find ''article'' soup of
        Some a \<Rightarrow> a
      | None \<Rightarrow>
          (case bs_find ''main'' soup of
             Some m \<Rightarrow> m
           | None \<Rightarrow> (case bs_find ''body'' soup of Some b \<Rightarrow> b | None \<Rightarrow> soup)))"

text \<open>The \<open>src\<close> of an image, absent when the attribute is missing or empty.\<close>

definition img_src :: "node \<Rightarrow> string option" where
  "img_src img =
     (case tag_get img ''src'' of None \<Rightarrow> None | Some s \<Rightarrow> if s = [] then None else Some s)"

text \<open>
  The hero image: the \<open>src\<close> of the first \<open>img\<close> in the content region; if the region
  has no \<open>img\<close>, of the first \<open>img\<close> anywhere in the document; else absent.
\<close>

definition hero_image_spec :: "node \<Rightarrow> string option" where
  "hero_image_spec soup =
     (case bs_find ''img'' (content_region soup) of
        Some i \<Rightarrow> img_src i
      | None \<Rightarrow> (case bs_find ''img'' soup of Some i \<Rightarrow> img_src i | None \<Rightarrow> None))"

text \<open>
  The title as line 40 computes it: the stripped string of the first \<open>title\<close> element,
  when that element has a single non-empty string.
\<close>

definition title_spec :: "node \<Rightarrow> string option" where
  "title_spec soup =
     (case bs_find ''title'' soup of
        None \<Rightarrow> None
      | Some t \<Rightarrow>
          (case tag_string t of
             None \<Rightarrow> None
           | Some s \<Rightarrow> if s = [] then None else Some (strip s)))"

section \<open>Example inputs\<close>

text \<open>The document of the specification's example, and the tree html.parser builds for it.\<close>

definition sample_html :: string where
  "sample_html =
     ''<html><head><title> T </title></head><body><article><img src='' @ [CHR 0x22] @
     ''/h.png'' @ [CHR 0x22] @ ''><p>Hello</p></article></body></html>''"

definition sample_soup :: node where
  "sample_soup =
     Tag ''[document]'' []
       [Tag ''html'' []
         [Tag ''head'' [] [Tag ''title'' [] [NavigableString '' T '']],
          Tag ''body'' []
            [Tag ''article'' []
              [Tag ''img'' [(''src'', ''/h.png'')] [],
               Tag ''p'' [] [NavigableString ''Hello'']]]]]"

text \<open>A document with no \<open>article\<close>, no \<open>main\<close> and no \<open>img\<close>.\<close>

definition plain_soup :: node where
  "plain_soup =
     Tag ''[document]'' []
       [Tag ''html'' [] [Tag ''body'' [] [Tag ''p'' [] [NavigableString '' Hi '']]]]"

definition example_page :: response where
  "example_page =
     \<lparr> r_url = ''https://blog.example.com/p/hello'', r_status_code = 200, r_text = sample_html \<rparr>"

definition example_md :: "string \<Rightarrow> string option" where
  "example_md =
     map_of [(''canonical_url'', ''https://example.substack.com/p/hello''), (''title'', ''Hello'')]"

text \<open>
  A world in which every collaborator succeeds; the provider's metadata has no
  \<open>author\<close> entry. The digest is a stand-in.
\<close>

definition world_structured :: "unit env" where
  "world_structured =
     \<lparr> client_get_head = (\<lambda>u. Inr example_page),
       Post = (\<lambda>u. Inr ()),
       get_metadata = (\<lambda>p. Inr example_md),
       get_content = (\<lambda>p as_html. Inr (Some (if as_html then ''<p>Hello</p>'' else ''Hello''))),
       client_get_r = (\<lambda>u. Inr example_page),
       status_error = (\<lambda>r. ''status error''),
       BeautifulSoup = (\<lambda>h. Inr sample_soup),
       hostname = (\<lambda>u. Some ''blog.example.com''),
       sha256_hexdigest = (\<lambda>s. ''digest of '' @ s) \<rparr>"

text \<open>The provider rejects the URL; the fallback fetch succeeds.\<close>

definition world_fallback :: "unit env" where
  "world_fallback = world_structured \<lparr> Post := (\<lambda>u. Inl ''unsupported url'') \<rparr>"

text \<open>The provider rejects the URL and the fallback fetch times out.\<close>

definition world_both_fail :: "unit env" where
  "world_both_fail = world_fallback \<lparr> client_get_r := (\<lambda>u. Inl ''connect timeout'') \<rparr>"

text \<open>The first GET fails.\<close>

definition world_unreachable :: "unit env" where
  "world_unreachable =
     world_structured \<lparr> client_get_head := (\<lambda>u. Inl ''name resolution failed'') \<rparr>"


section \<open>Facts about the extractor\<close>

lemma bind_exn_Inr: "bind_exn (Inr x) f = f x"
  by (simp add: bind_exn_def)

lemma title_part:
  "(if truthy_tag (bs_find ''title'' soup)
        then bind_exn (dot_string (bs_find ''title'' soup)) (\<lambda>s.
               if truthy_str s
               then bind_exn (dot_string (bs_find ''title'' soup)) (\<lambda>s'.
                    bind_exn (dot_strip s') (\<lambda>r. Inr (Some r)))
               else Inr None)
        else Inr None) = Inr (title_spec soup)"
  by (simp add: truthy_tag_def truthy_str_def bind_exn_def dot_string_def dot_strip_def
      title_spec_def split: option.splits)

lemma find_part:
  "(if truthy_tag a then dot_find a nm else Inr a) =
   Inr (case a of None \<Rightarrow> None | Some x \<Rightarrow> bs_find nm x)"
  by (simp add: truthy_tag_def dot_find_def split: option.splits)

lemma hero_part:
  "(if truthy_tag img
    then bind_exn (dot_get img ''src'') (\<lambda>s.
           if truthy_str s then dot_get img ''src'' else Inr None)
    else Inr None) =
   Inr (case img of None \<Rightarrow> None | Some i \<Rightarrow> img_src i)"
  by (simp add: truthy_tag_def truthy_str_def dot_get_def bind_exn_def img_src_def
      split: option.splits)

lemma text_part:
  "(if truthy_tag a then dot_get_text a else Inr (get_text soup)) =
   Inr (get_text (case a of None \<Rightarrow> soup | Some x \<Rightarrow> x))"
  by (simp add: truthy_tag_def dot_get_text_def split: option.splits)

lemma region_part:
  "or_tag (bs_find ''article'' soup) (or_tag (bs_find ''main'' soup) (bs_find ''body'' soup)) = Some x
   \<Longrightarrow> content_region soup = x"
  "or_tag (bs_find ''article'' soup) (or_tag (bs_find ''main'' soup) (bs_find ''body'' soup)) = None
   \<Longrightarrow> content_region soup = soup"
  by (auto simp add: or_tag_def truthy_tag_def content_region_def split: option.splits if_splits)

lemma readability_extract_Inr:
  assumes "parse doc = Inr soup"
  shows "readability_extract parse doc =
           Inr (get_text (content_region soup), title_spec soup, hero_image_spec soup)"
proof -
  define a where
    "a = or_tag (bs_find ''article'' soup) (or_tag (bs_find ''main'' soup) (bs_find ''body'' soup))"
  have region: "(case a of None \<Rightarrow> soup | Some x \<Rightarrow> x) = content_region soup"
    using region_part [of soup] by (cases a) (simp_all add: a_def)
  have hero: "(case or_tag (case a of None \<Rightarrow> None | Some x \<Rightarrow> bs_find ''img'' x)
                 (bs_find ''img'' soup) of None \<Rightarrow> None | Some i \<Rightarrow> img_src i) =
              hero_image_spec soup"
  proof (cases a)
    case None
    then have "content_region soup = soup" using region by simp
    with None show ?thesis
      by (simp add: hero_image_spec_def or_tag_def truthy_tag_def split: option.splits)
  next
    case (Some x)
    then have "content_region soup = x" using region by simp
    with Some show ?thesis
      by (simp add: hero_image_spec_def or_tag_def truthy_tag_def split: option.splits)
  qed
  have "readability_extract parse doc =
          Inr (get_text (case a of None \<Rightarrow> soup | Some x \<Rightarrow> x), title_spec soup,
               (case or_tag (case a of None \<Rightarrow> None | Some x \<Rightarrow> bs_find ''img'' x)
                 (bs_find ''img'' soup) of None \<Rightarrow> None | Some i \<Rightarrow> img_src i))"
    unfolding readability_extract_def assms bind_exn_Inr title_part Let_def a_def [symmetric]
      find_part hero_part text_part ..
  then show ?thesis by (simp only: region hero)
qed

lemma readability_extract_Inl:
  "parse doc = Inl e \<Longrightarrow> readability_extract parse doc = Inl e"
  by (simp add: readability_extract_def bind_exn_def)

lemma sample_values:
  "get_text (content_region sample_soup) = ''Hello''"
  "title_spec sample_soup = Some ''T''"
  "hero_image_spec sample_soup = Some ''/h.png''"
  by (simp_all add: sample_soup_def content_region_def title_spec_def hero_image_spec_def
      img_src_def bs_find_def get_text_def strip_def is_space_def)

lemma plain_values:
  "bs_find ''article'' plain_soup = None"
  "bs_find ''main'' plain_soup = None"
  "bs_find ''img'' plain_soup = None"
  "get_text (case bs_find ''body'' plain_soup of Some b \<Rightarrow> b | None \<Rightarrow> plain_soup) = ''Hi''"
  by (simp_all add: plain_soup_def bs_find_def get_text_def strip_def is_space_def)

lemma descendants_below:
  "x \<in> set (descendants y) \<Longrightarrow> set (descendants x) \<subseteq> set (descendants y)"
  by (induction y rule: descendants.induct) auto

lemma bs_find_Some_mem: "bs_find nm el = Some x \<Longrightarrow> x \<in> set (descendants el)"
  by (auto simp add: bs_find_def find_Some_iff)

lemma bs_find_below:
  assumes "bs_find nm soup = None" and "bs_find k soup = Some x"
  shows "bs_find nm x = None"
proof -
  have "set (descendants x) \<subseteq> set (descendants soup)"
    using assms(2) by (intro descendants_below bs_find_Some_mem)
  then show ?thesis
    using assms(1) by (auto simp add: bs_find_def find_None_iff)
qed

section \<open>Facts about the endpoint\<close>

lemma io_bind_call_Inl: "io_bind (call ev (Inl e)) f = ([ev], Inl e)"
  by (simp add: io_bind_def call_def)

lemma io_bind_call_Inr: "io_bind (call ev (Inr x)) f = (ev # fst (f x), snd (f x))"
  by (simp add: io_bind_def call_def split: prod.splits)

lemma io_bind_pure_Inl: "io_bind (pure (Inl e)) f = ([], Inl e)"
  by (simp add: io_bind_def pure_def)

lemma io_bind_pure_Inr: "io_bind (pure (Inr x)) f = f x"
  by (simp add: io_bind_def pure_def split: prod.splits)

lemma io_bind_nil_Inl: "io_bind ([], Inl e) f = ([], Inl e)"
  by (simp add: io_bind_def)

lemma io_bind_nil_Inr: "io_bind ([], Inr x) f = f x"
  by (simp add: io_bind_def split: prod.splits)

lemmas io_simps = io_bind_call_Inl io_bind_call_Inr io_bind_pure_Inl io_bind_pure_Inr
  io_bind_nil_Inl io_bind_nil_Inr

lemma normalize_url_Inl:
  "client_get_head env u = Inl e \<Longrightarrow> normalize_url env u = ([HTTP_GET u], Inl e)"
  by (simp add: normalize_url_def io_simps)

lemma normalize_url_Inr:
  "client_get_head env u = Inr head \<Longrightarrow> normalize_url env u = ([HTTP_GET u], Inr (r_url head))"
  by (simp add: normalize_url_def io_simps pure_def)

lemma normalize_url_Inr_inv:
  assumes "normalize_url env u = (t1, Inr f)"
  shows "t1 = [HTTP_GET u] \<and> (\<exists>head. client_get_head env u = Inr head \<and> f = r_url head)"
proof (cases "client_get_head env u")
  case (Inl e)
  with assms show ?thesis by (simp add: normalize_url_Inl)
next
  case (Inr head)
  with assms show ?thesis by (auto simp add: normalize_url_Inr)
qed

lemma structured_attempt_ok:
  assumes "Post env f = Inr p" and "get_metadata env p = Inr md"
    and "get_content env p True = Inr h" and "get_content env p False = Inr t"
  shows "structured_attempt env f =
           ([Post_init f, Get_metadata, Get_content True, Get_content False],
            Inr \<lparr> url = f,
                  canonical_url = Some (or_str (md ''canonical_url'') f),
                  title = md ''title'',
                  author = md ''author'',
                  publication = md ''publication'',
                  published_at = md ''published_at'',
                  hero_image = md ''hero_image'',
                  html = h,
                  plain_text = t,
                  sha256 = sha_of env t,
                  source = ''substack_api'' \<rparr>)"
  using assms by (simp add: structured_attempt_def io_simps pure_def Let_def)

lemma structured_attempt_Inr_inv:
  assumes "structured_attempt env f = (t2, Inr out)"
  shows "\<exists>p md h t. Post env f = Inr p \<and> get_metadata env p = Inr md \<and>
           get_content env p True = Inr h \<and> get_content env p False = Inr t"
proof (cases "Post env f")
  case (Inl e)
  with assms show ?thesis by (simp add: structured_attempt_def io_simps)
next
  case p: (Inr p)
  show ?thesis
  proof (cases "get_metadata env p")
    case (Inl e)
    with assms p show ?thesis by (simp add: structured_attempt_def io_simps)
  next
    case md: (Inr md)
    show ?thesis
    proof (cases "get_content env p True")
      case (Inl e)
      with assms p md show ?thesis by (simp add: structured_attempt_def io_simps)
    next
      case h: (Inr h)
      show ?thesis
      proof (cases "get_content env p False")
        case (Inl e)
        with assms p md h show ?thesis by (simp add: structured_attempt_def io_simps)
      next
        case (Inr t)
        with p md h show ?thesis by simp
      qed
    qed
  qed
qed

lemma generic_fallback_ok:
  assumes "client_get_r env f = Inr r"
    and "200 \<le> r_status_code r" and "r_status_code r \<le> 299"
    and "BeautifulSoup env (r_text r) = Inr soup"
  shows "generic_fallback env f =
           ([HTTP_GET f],
            Inr \<lparr> url = f,
                  canonical_url = Some (r_url r),
                  title = title_spec soup,
                  author = None,
                  publication = hostname env (r_url r),
                  published_at = None,
                  hero_image = hero_image_spec soup,
                  html = Some (r_text r),
                  plain_text = Some (get_text (content_region soup)),
                  sha256 = sha_of env (Some (get_text (content_region soup))),
                  source = ''generic-fetch'' \<rparr>)"
  using assms readability_extract_Inr [of "BeautifulSoup env" "r_text r" soup]
  by (simp add: generic_fallback_def io_simps raise_for_status_def pure_def Let_def)

lemma generic_fallback_Inr_inv:
  assumes "generic_fallback env f = (t3, Inr out)"
  shows "\<exists>r soup. client_get_r env f = Inr r \<and> 200 \<le> r_status_code r \<and>
           r_status_code r \<le> 299 \<and> BeautifulSoup env (r_text r) = Inr soup"
proof (cases "client_get_r env f")
  case (Inl e)
  with assms show ?thesis by (simp add: generic_fallback_def io_simps)
next
  case r: (Inr r)
  show ?thesis
  proof (cases "200 \<le> r_status_code r \<and> r_status_code r \<le> 299")
    case False
    with assms r show ?thesis
      by (simp add: generic_fallback_def io_simps raise_for_status_def)
  next
    case ok: True
    show ?thesis
    proof (cases "BeautifulSoup env (r_text r)")
      case (Inl e)
      with assms r ok show ?thesis
        by (simp add: generic_fallback_def io_simps raise_for_status_def Let_def
            readability_extract_Inl)
    next
      case (Inr soup)
      with r ok show ?thesis by simp
    qed
  qed
qed

lemma get_post_structured:
  "normalize_url env u = (t1, Inr f) \<Longrightarrow> structured_attempt env f = (t2, Inr out) \<Longrightarrow>
   get_post env u = (t1 @ t2, Inr out)"
  by (simp add: get_post_def)

lemma get_post_generic:
  "normalize_url env u = (t1, Inr f) \<Longrightarrow> structured_attempt env f = (t2, Inl e) \<Longrightarrow>
   generic_fallback env f = (t3, Inr out) \<Longrightarrow> get_post env u = (t1 @ t2 @ t3, Inr out)"
  by (simp add: get_post_def)

lemma get_post_failed:
  "normalize_url env u = (t1, Inr f) \<Longrightarrow> structured_attempt env f = (t2, Inl e) \<Longrightarrow>
   generic_fallback env f = (t3, Inl e2) \<Longrightarrow>
   get_post env u =
     (t1 @ t2 @ t3,
      Inl (HTTPException 502 (''substack_api failed: '' @ e @ ''; fallback fetch failed: '' @ e2)))"
  by (simp add: get_post_def)

lemma get_post_Inr_inv:
  assumes "get_post env u = (tr, Inr out)"
  shows "\<exists>t1 f. normalize_url env u = (t1, Inr f) \<and>
           ((\<exists>t2. structured_attempt env f = (t2, Inr out)) \<or>
            (\<exists>t2 e t3. structured_attempt env f = (t2, Inl e) \<and>
               generic_fallback env f = (t3, Inr out)))"
  using assms by (auto simp add: get_post_def split: prod.splits sum.splits)

section \<open>The example worlds, evaluated\<close>

lemma world_fields:
  "client_get_head world_structured u = Inr example_page"
  "Post world_structured u = Inr ()"
  "get_metadata world_structured p = Inr example_md"
  "get_content world_structured p b = Inr (Some (if b then ''<p>Hello</p>'' else ''Hello''))"
  "client_get_r world_structured u = Inr example_page"
  "BeautifulSoup world_structured h = Inr sample_soup"
  "hostname world_structured u = Some ''blog.example.com''"
  "sha256_hexdigest world_structured s = ''digest of '' @ s"
  by (simp_all add: world_structured_def)

lemma world_fallback_fields:
  "client_get_head world_fallback u = Inr example_page"
  "Post world_fallback u = Inl ''unsupported url''"
  "client_get_r world_fallback u = Inr example_page"
  "BeautifulSoup world_fallback h = Inr sample_soup"
  "hostname world_fallback u = Some ''blog.example.com''"
  "sha256_hexdigest world_fallback s = ''digest of '' @ s"
  by (simp_all add: world_fallback_def world_structured_def)

lemma world_both_fail_fields:
  "client_get_head world_both_fail u = Inr example_page"
  "Post world_both_fail u = Inl ''unsupported url''"
  "client_get_r world_both_fail u = Inl ''connect timeout''"
  by (simp_all add: world_both_fail_def world_fallback_def world_structured_def)

lemma world_unreachable_fields:
  "client_get_head world_unreachable u = Inl ''name resolution failed''"
  by (simp_all add: world_unreachable_def world_structured_def)


lemma example_page_fields:
  "r_url example_page = ''https://blog.example.com/p/hello''"
  "r_status_code example_page = 200"
  "r_text example_page = sample_html"
  by (simp_all add: example_page_def)

lemma structured_attempt_Post_Inl:
  "Post env f = Inl e \<Longrightarrow> structured_attempt env f = ([Post_init f], Inl e)"
  by (simp add: structured_attempt_def io_simps)

lemma generic_fallback_get_Inl:
  "client_get_r env f = Inl e \<Longrightarrow> generic_fallback env f = ([HTTP_GET f], Inl e)"
  by (simp add: generic_fallback_def io_simps)

text \<open>The ways in which the generic fallback raises: the fetch, the status, the parser.\<close>

lemma generic_fallback_status_Inl:
  "client_get_r env f = Inr r \<Longrightarrow> \<not> (200 \<le> r_status_code r \<and> r_status_code r \<le> 299) \<Longrightarrow>
   generic_fallback env f = ([HTTP_GET f], Inl (status_error env r))"
proof -
  assume r: "client_get_r env f = Inr r"
    and bad: "\<not> (200 \<le> r_status_code r \<and> r_status_code r \<le> 299)"
  from bad have "raise_for_status env r = Inl (status_error env r)"
    unfolding raise_for_status_def by (rule if_not_P)
  with r show ?thesis
    by (simp add: generic_fallback_def io_simps)
qed

lemma generic_fallback_parse_Inl:
  "client_get_r env f = Inr r \<Longrightarrow> 200 \<le> r_status_code r \<Longrightarrow> r_status_code r \<le> 299 \<Longrightarrow>
   BeautifulSoup env (r_text r) = Inl e \<Longrightarrow>
   generic_fallback env f = ([HTTP_GET f], Inl e)"
  by (simp add: generic_fallback_def io_simps raise_for_status_def Let_def
      readability_extract_Inl)

lemma generic_fallback_Inl_iff:
  "(\<exists>t e2. generic_fallback env f = (t, Inl e2)) \<longleftrightarrow>
     (\<exists>e. client_get_r env f = Inl e) \<or>
     (\<exists>r. client_get_r env f = Inr r \<and>
        (\<not> (200 \<le> r_status_code r \<and> r_status_code r \<le> 299) \<or>
         (\<exists>e. BeautifulSoup env (r_text r) = Inl e)))"
proof (cases "client_get_r env f")
  case (Inl e)
  then show ?thesis by (simp add: generic_fallback_get_Inl)
next
  case r: (Inr r)
  show ?thesis
  proof (cases "200 \<le> r_status_code r \<and> r_status_code r \<le> 299")
    case False
    with r show ?thesis by (simp add: generic_fallback_status_Inl)
  next
    case ok: True
    show ?thesis
    proof (cases "BeautifulSoup env (r_text r)")
      case (Inl e)
      with r ok show ?thesis by (simp add: generic_fallback_parse_Inl)
    next
      case (Inr soup)
      with r ok show ?thesis by (simp add: generic_fallback_ok)
    qed
  qed
qed

text \<open>The ways in which the structured attempt raises: each of the provider's four calls.\<close>

lemma structured_attempt_Inl_iff:
  "(\<exists>t e. structured_attempt env f = (t, Inl e)) \<longleftrightarrow>
     (\<exists>e. Post env f = Inl e) \<or>
     (\<exists>p. Post env f = Inr p \<and>
        ((\<exists>e. get_metadata env p = Inl e) \<or> (\<exists>e. get_content env p True = Inl e) \<or>
         (\<exists>e. get_content env p False = Inl e)))"
proof (cases "Post env f")
  case (Inl e)
  then show ?thesis by (simp add: structured_attempt_Post_Inl)
next
  case p: (Inr p)
  show ?thesis
  proof (cases "get_metadata env p")
    case (Inl e)
    with p show ?thesis by (simp add: structured_attempt_def io_simps)
  next
    case md: (Inr md)
    show ?thesis
    proof (cases "get_content env p True")
      case (Inl e)
      with p md show ?thesis by (simp add: structured_attempt_def io_simps)
    next
      case h: (Inr h)
      show ?thesis
      proof (cases "get_content env p False")
        case (Inl e)
        with p md h show ?thesis by (simp add: structured_attempt_def io_simps)
      next
        case (Inr t)
        with p md h show ?thesis by (simp add: structured_attempt_ok)
      qed
    qed
  qed
qed

section \<open>What a successful stage returns\<close>

lemma structured_attempt_Inr_fields:
  assumes "structured_attempt env f = (t2, Inr out)"
  shows "\<exists>p md h t. Post env f = Inr p \<and> get_metadata env p = Inr md \<and>
           get_content env p True = Inr h \<and> get_content env p False = Inr t \<and>
           t2 = [Post_init f, Get_metadata, Get_content True, Get_content False] \<and>
           out = \<lparr> url = f,
                   canonical_url = Some (or_str (md ''canonical_url'') f),
                   title = md ''title'',
                   author = md ''author'',
                   publication = md ''publication'',
                   published_at = md ''published_at'',
                   hero_image = md ''hero_image'',
                   html = h,
                   plain_text = t,
                   sha256 = sha_of env t,
                   source = ''substack_api'' \<rparr>"
proof -
  from structured_attempt_Inr_inv [OF assms] obtain p md h t where
    c: "Post env f = Inr p" "get_metadata env p = Inr md"
       "get_content env p True = Inr h" "get_content env p False = Inr t"
    by blast
  from structured_attempt_ok [OF c] assms c show ?thesis by simp
qed

lemma generic_fallback_Inr_fields:
  assumes "generic_fallback env f = (t3, Inr out)"
  shows "\<exists>r soup. client_get_r env f = Inr r \<and> 200 \<le> r_status_code r \<and>
           r_status_code r \<le> 299 \<and> BeautifulSoup env (r_text r) = Inr soup \<and>
           t3 = [HTTP_GET f] \<and>
           out = \<lparr> url = f,
                   canonical_url = Some (r_url r),
                   title = title_spec soup,
                   author = None,
                   publication = hostname env (r_url r),
                   published_at = None,
                   hero_image = hero_image_spec soup,
                   html = Some (r_text r),
                   plain_text = Some (get_text (content_region soup)),
                   sha256 = sha_of env (Some (get_text (content_region soup))),
                   source = ''generic-fetch'' \<rparr>"
proof -
  from generic_fallback_Inr_inv [OF assms] obtain r soup where
    c: "client_get_r env f = Inr r" "200 \<le> r_status_code r" "r_status_code r \<le> 299"
       "BeautifulSoup env (r_text r) = Inr soup"
    by blast
  from generic_fallback_ok [OF c] assms c show ?thesis by simp
qed

lemma sha_of_eq:
  "sha_of env t =
     (case t of None \<Rightarrow> None | Some s \<Rightarrow> if s = [] then None else Some (sha256_hexdigest env s))"
  by (simp add: sha_of_def truthy_str_def split: option.splits)


lemma get_post_world_structured:
  "get_post world_structured u =
     ([HTTP_GET u, Post_init ''https://blog.example.com/p/hello'', Get_metadata,
       Get_content True, Get_content False],
      Inr \<lparr> url = ''https://blog.example.com/p/hello'',
            canonical_url = Some ''https://example.substack.com/p/hello'',
            title = Some ''Hello'',
            author = None,
            publication = None,
            published_at = None,
            hero_image = None,
            html = Some ''<p>Hello</p>'',
            plain_text = Some ''Hello'',
            sha256 = Some ''digest of Hello'',
            source = ''substack_api'' \<rparr>)"
proof -
  have n: "normalize_url world_structured u = ([HTTP_GET u], Inr ''https://blog.example.com/p/hello'')"
    by (simp add: normalize_url_Inr [of _ _ example_page] world_fields example_page_fields)
  have s: "structured_attempt world_structured ''https://blog.example.com/p/hello'' =
     ([Post_init ''https://blog.example.com/p/hello'', Get_metadata,
       Get_content True, Get_content False],
      Inr \<lparr> url = ''https://blog.example.com/p/hello'',
            canonical_url = Some ''https://example.substack.com/p/hello'',
            title = Some ''Hello'',
            author = None,
            publication = None,
            published_at = None,
            hero_image = None,
            html = Some ''<p>Hello</p>'',
            plain_text = Some ''Hello'',
            sha256 = Some ''digest of Hello'',
            source = ''substack_api'' \<rparr>)"
    using structured_attempt_ok [of world_structured "''https://blog.example.com/p/hello''"
      "()" example_md "Some ''<p>Hello</p>''" "Some ''Hello''"]
    by (simp add: world_fields example_md_def or_str_def sha_of_def truthy_str_def)
  show ?thesis using get_post_structured [OF n s] by simp
qed

lemma get_post_world_fallback:
  "get_post world_fallback u =
     ([HTTP_GET u, Post_init ''https://blog.example.com/p/hello'',
       HTTP_GET ''https://blog.example.com/p/hello''],
      Inr \<lparr> url = ''https://blog.example.com/p/hello'',
            canonical_url = Some ''https://blog.example.com/p/hello'',
            title = Some ''T'',
            author = None,
            publication = Some ''blog.example.com'',
            published_at = None,
            hero_image = Some ''/h.png'',
            html = Some sample_html,
            plain_text = Some ''Hello'',
            sha256 = Some ''digest of Hello'',
            source = ''generic-fetch'' \<rparr>)"
proof -
  have n: "normalize_url world_fallback u = ([HTTP_GET u], Inr ''https://blog.example.com/p/hello'')"
    by (simp add: normalize_url_Inr [of _ _ example_page] world_fallback_fields example_page_fields)
  have s: "structured_attempt world_fallback ''https://blog.example.com/p/hello'' =
             ([Post_init ''https://blog.example.com/p/hello''], Inl ''unsupported url'')"
    by (simp add: structured_attempt_Post_Inl world_fallback_fields)
  have g: "generic_fallback world_fallback ''https://blog.example.com/p/hello'' =
     ([HTTP_GET ''https://blog.example.com/p/hello''],
      Inr \<lparr> url = ''https://blog.example.com/p/hello'',
            canonical_url = Some ''https://blog.example.com/p/hello'',
            title = Some ''T'',
            author = None,
            publication = Some ''blog.example.com'',
            published_at = None,
            hero_image = Some ''/h.png'',
            html = Some sample_html,
            plain_text = Some ''Hello'',
            sha256 = Some ''digest of Hello'',
            source = ''generic-fetch'' \<rparr>)"
    using generic_fallback_ok [of world_fallback "''https://blog.example.com/p/hello''"
      example_page sample_soup]
    by (simp add: world_fallback_fields example_page_fields sample_values sha_of_eq)
  show ?thesis using get_post_generic [OF n s g] by simp
qed


section \<open>The claims\<close>

text \<open>
  C1 (as amended). Every response of the content-resolution endpoint has a \<open>source\<close> that
  is one of the two strings \<open>substack_api\<close> and \<open>generic-fetch\<close>: it is \<open>substack_api\<close>
  when the structured attempt succeeded and \<open>generic-fetch\<close> when the structured attempt
  raised and the generic fallback succeeded.
\<close>

theorem source_is_one_of_two_tags:
  assumes "get_post env u = (tr, Inr out)"
  shows "(source out = ''substack_api'' \<or> source out = ''generic-fetch'') \<and>
         (\<forall>t1 f. normalize_url env u = (t1, Inr f) \<longrightarrow>
            ((\<exists>t2 out'. structured_attempt env f = (t2, Inr out')) \<longrightarrow>
               source out = ''substack_api'') \<and>
            ((\<exists>t2 e. structured_attempt env f = (t2, Inl e)) \<longrightarrow>
               source out = ''generic-fetch''))"
proof -
  from get_post_Inr_inv [OF assms] obtain t1 f where
    n: "normalize_url env u = (t1, Inr f)" and
    c: "(\<exists>t2. structured_attempt env f = (t2, Inr out)) \<or>
        (\<exists>t2 e t3. structured_attempt env f = (t2, Inl e) \<and>
           generic_fallback env f = (t3, Inr out))"
    by blast
  from c show ?thesis
  proof
    assume "\<exists>t2. structured_attempt env f = (t2, Inr out)"
    then obtain t2 where s: "structured_attempt env f = (t2, Inr out)" by blast
    from structured_attempt_Inr_fields [OF s] have "source out = ''substack_api''" by auto
    with n s show ?thesis by auto
  next
    assume "\<exists>t2 e t3. structured_attempt env f = (t2, Inl e) \<and>
           generic_fallback env f = (t3, Inr out)"
    then obtain t2 e t3 where s: "structured_attempt env f = (t2, Inl e)"
      and g: "generic_fallback env f = (t3, Inr out)" by blast
    from generic_fallback_Inr_fields [OF g] have "source out = ''generic-fetch''" by auto
    with n s show ?thesis by auto
  qed
qed

text \<open>
  The same theorem in the world where the provider rejects the URL and the fallback
  succeeds.
\<close>

theorem source_is_one_of_two_tags_witness:
  "source (projr (snd (get_post world_fallback ''https://custom.example.org/hello''))) =
     ''generic-fetch''"
  using source_is_one_of_two_tags
    [of world_fallback "''https://custom.example.org/hello''"
        "fst (get_post world_fallback ''https://custom.example.org/hello'')"
        "projr (snd (get_post world_fallback ''https://custom.example.org/hello''))"]
  by (simp add: get_post_world_fallback)

text \<open>
  C1 as stated names the two values \<open>structured\<close> and \<open>generic\<close>. In the world where
  every collaborator succeeds the endpoint answers with a response whose \<open>source\<close> is
  neither of them (it is \<open>substack_api\<close>).
\<close>

theorem source_tag_names_counterexample:
  "\<not> isl (snd (get_post world_structured ''https://custom.example.org/hello'')) \<and>
   source (projr (snd (get_post world_structured ''https://custom.example.org/hello''))) \<noteq>
     ''structured'' \<and>
   source (projr (snd (get_post world_structured ''https://custom.example.org/hello''))) \<noteq>
     ''generic''"
  by (simp add: get_post_world_structured)

text \<open>
  C2. When the structured attempt raises and the generic fallback raises too, the endpoint
  raises an \<open>HTTPException\<close> of status 502 whose detail contains the message of the
  structured failure and the message of the fallback failure, each after its label; no
  response model is returned.
\<close>

theorem both_stages_fail_502:
  assumes "normalize_url env u = (t1, Inr f)"
    and "structured_attempt env f = (t2, Inl e)"
    and "generic_fallback env f = (t3, Inl e2)"
  shows "\<exists>d. get_post env u = (t1 @ t2 @ t3, Inl (HTTPException 502 d)) \<and>
           sublist (''substack_api failed: '' @ e) d \<and>
           sublist (''fallback fetch failed: '' @ e2) d"
proof -
  let ?d = "''substack_api failed: '' @ e @ ''; fallback fetch failed: '' @ e2"
  have "get_post env u = (t1 @ t2 @ t3, Inl (HTTPException 502 ?d))"
    using assms by (rule get_post_failed)
  moreover have "sublist (''substack_api failed: '' @ e) ?d"
    using sublist_appendI [of "''substack_api failed: '' @ e" "[]" "''; fallback fetch failed: '' @ e2"]
    by simp
  moreover have "sublist (''fallback fetch failed: '' @ e2) ?d"
    using sublist_appendI [of "''fallback fetch failed: '' @ e2" "''substack_api failed: '' @ e @ ''; ''" "[]"]
    by simp
  ultimately show ?thesis by blast
qed

text \<open>
  The same theorem in the world where the provider rejects the URL and the fallback
  fetch times out.
\<close>

theorem both_stages_fail_502_witness:
  "\<exists>d. get_post world_both_fail ''https://custom.example.org/hello'' =
         ([HTTP_GET ''https://custom.example.org/hello'',
           Post_init ''https://blog.example.com/p/hello'',
           HTTP_GET ''https://blog.example.com/p/hello''],
          Inl (HTTPException 502 d)) \<and>
       sublist ''substack_api failed: unsupported url'' d \<and>
       sublist ''fallback fetch failed: connect timeout'' d"
  using both_stages_fail_502
    [of world_both_fail "''https://custom.example.org/hello''"
        "[HTTP_GET ''https://custom.example.org/hello'']" "''https://blog.example.com/p/hello''"
        "[Post_init ''https://blog.example.com/p/hello'']" "''unsupported url''"
        "[HTTP_GET ''https://blog.example.com/p/hello'']" "''connect timeout''"]
  by (simp add: normalize_url_Inr [of _ _ example_page] structured_attempt_Post_Inl
      generic_fallback_get_Inl world_both_fail_fields example_page_fields)



text \<open>
  C4. When the first GET raises, the endpoint raises an \<open>HTTPException\<close> of status 502
  whose detail carries the cause, and the first GET is the only call made: neither the
  provider nor the fallback fetch is attempted.
\<close>

theorem canonicalization_failure_is_fatal:
  assumes "client_get_head env u = Inl e"
  shows "get_post env u =
           ([HTTP_GET u], Inl (HTTPException 502 (''URL normalize failed: '' @ e)))"
  using assms by (simp add: get_post_def normalize_url_Inl)

text \<open>
  The same theorem in the world where the first GET fails.
\<close>

theorem canonicalization_failure_is_fatal_witness:
  "get_post world_unreachable ''https://no-such-host.example/p/x'' =
     ([HTTP_GET ''https://no-such-host.example/p/x''],
      Inl (HTTPException 502 ''URL normalize failed: name resolution failed''))"
  using canonicalization_failure_is_fatal
    [of world_unreachable "''https://no-such-host.example/p/x''" "''name resolution failed''"]
  by (simp add: world_unreachable_fields)




text \<open>
  C6. On a document the parser turns into a tree, the extractor returns the text of the
  content region (the first \<open>article\<close>, else the first \<open>main\<close>, else the body, else the
  whole document) and the hero image of the fallback chain (the \<open>src\<close> of the first
  \<open>img\<close> in the content region, else of the first \<open>img\<close> anywhere, else absent). On the
  example document, with the tree html.parser builds for it, it returns the title \<open>T\<close>,
  the hero image \<open>/h.png\<close> and the text \<open>Hello\<close>.
\<close>

theorem heuristic_extractor_fallback_chain:
  assumes "parse doc = Inr soup"
  shows "readability_extract parse doc =
           Inr (get_text (content_region soup), title_spec soup, hero_image_spec soup) \<and>
         (doc = sample_html \<and> soup = sample_soup \<longrightarrow>
            readability_extract parse doc = Inr (''Hello'', Some ''T'', Some ''/h.png''))"
proof -
  have eq: "readability_extract parse doc =
              Inr (get_text (content_region soup), title_spec soup, hero_image_spec soup)"
    using assms by (rule readability_extract_Inr)
  then show ?thesis by (auto simp add: sample_values)
qed

text \<open>
  The same theorem on the example document.
\<close>

theorem heuristic_extractor_fallback_chain_witness:
  "readability_extract (\<lambda>h. Inr sample_soup) sample_html =
     Inr (''Hello'', Some ''T'', Some ''/h.png'')"
  using heuristic_extractor_fallback_chain [of "\<lambda>h. Inr sample_soup" sample_html sample_soup]
  by (simp add: sample_values)

text \<open>
  C7. On a document the parser turns into a tree the extractor never raises. When the
  tree has no \<open>article\<close>, no \<open>main\<close> and no \<open>img\<close>, the text is the text of the body
  (of the whole document when there is no body) and the hero image is \<open>None\<close>.
\<close>

theorem heuristic_extractor_never_raises:
  assumes "parse doc = Inr soup"
  shows "(\<exists>text title hero. readability_extract parse doc = Inr (text, title, hero)) \<and>
         (bs_find ''article'' soup = None \<and> bs_find ''main'' soup = None \<and>
          bs_find ''img'' soup = None \<longrightarrow>
            (\<exists>title. readability_extract parse doc =
               Inr (get_text (case bs_find ''body'' soup of Some b \<Rightarrow> b | None \<Rightarrow> soup),
                    title, None)))"
proof (intro conjI impI)
  show "\<exists>text title hero. readability_extract parse doc = Inr (text, title, hero)"
    using readability_extract_Inr [of parse doc soup] assms by blast
next
  assume h: "bs_find ''article'' soup = None \<and> bs_find ''main'' soup = None \<and>
          bs_find ''img'' soup = None"
  then have r: "content_region soup = (case bs_find ''body'' soup of Some b \<Rightarrow> b | None \<Rightarrow> soup)"
    by (simp add: content_region_def)
  have "bs_find ''img'' (content_region soup) = None"
    using h by (auto simp add: r intro: bs_find_below split: option.splits)
  with h have "hero_image_spec soup = None"
    by (simp add: hero_image_spec_def)
  with r readability_extract_Inr [of parse doc soup] assms
  show "\<exists>title. readability_extract parse doc =
               Inr (get_text (case bs_find ''body'' soup of Some b \<Rightarrow> b | None \<Rightarrow> soup),
                    title, None)"
    by simp
qed

text \<open>
  The same theorem on a document with a body and a paragraph only.
\<close>

theorem heuristic_extractor_never_raises_witness:
  "\<exists>title. readability_extract (\<lambda>h. Inr plain_soup) ''<html><body><p> Hi </p></body></html>'' =
     Inr (''Hi'', title, None)"
  using heuristic_extractor_never_raises
    [of "\<lambda>h. Inr plain_soup" "''<html><body><p> Hi </p></body></html>''" plain_soup]
  by (simp add: plain_values)




text \<open>
  C9. On the structured path, \<open>canonical_url\<close> is the \<open>canonical_url\<close> entry of the
  provider's metadata when the metadata has a non-empty one, and the final URL of the
  first GET otherwise.
\<close>

theorem structured_canonical_url:
  assumes "normalize_url env u = (t1, Inr f)"
    and "Post env f = Inr p" and "get_metadata env p = Inr md"
    and "get_content env p True = Inr h" and "get_content env p False = Inr t"
  shows "\<exists>tr out. get_post env u = (tr, Inr out) \<and> source out = ''substack_api'' \<and>
           canonical_url out =
             Some (case md ''canonical_url'' of
                     None \<Rightarrow> f
                   | Some c \<Rightarrow> if c = [] then f else c)"
proof -
  from assms(2-5) obtain out where
    s: "structured_attempt env f =
          ([Post_init f, Get_metadata, Get_content True, Get_content False], Inr out)" and
    o: "source out = ''substack_api''"
       "canonical_url out = Some (or_str (md ''canonical_url'') f)"
    using structured_attempt_ok [of env f p md h t] by simp
  from assms(1) s have "get_post env u =
      (t1 @ [Post_init f, Get_metadata, Get_content True, Get_content False], Inr out)"
    by (rule get_post_structured)
  with o show ?thesis by (auto simp add: or_str_def split: option.splits)
qed

text \<open>
  The same theorem in the world where every collaborator succeeds.
\<close>

theorem structured_canonical_url_witness:
  "\<exists>tr out. get_post world_structured ''https://custom.example.org/hello'' = (tr, Inr out) \<and>
     source out = ''substack_api'' \<and>
     canonical_url out = Some ''https://example.substack.com/p/hello''"
  using structured_canonical_url
    [of world_structured "''https://custom.example.org/hello''"
        "[HTTP_GET ''https://custom.example.org/hello'']" "''https://blog.example.com/p/hello''"
        "()" example_md "Some ''<p>Hello</p>''" "Some ''Hello''"]
  by (simp add: normalize_url_Inr [of _ _ example_page] world_fields example_page_fields
      example_md_def)

text \<open>
  C10. In every response, of the structured path or of the generic path, \<open>url\<close> is the
  URL of the response to the first GET (the final URL after redirects), not the URL the
  caller gave.
\<close>

theorem url_is_final_url:
  assumes "get_post env u = (tr, Inr out)"
  shows "\<exists>head. client_get_head env u = Inr head \<and> url out = r_url head"
proof -
  from get_post_Inr_inv [OF assms] obtain t1 f where
    n: "normalize_url env u = (t1, Inr f)" and
    c: "(\<exists>t2. structured_attempt env f = (t2, Inr out)) \<or>
        (\<exists>t2 e t3. structured_attempt env f = (t2, Inl e) \<and>
           generic_fallback env f = (t3, Inr out))"
    by blast
  from normalize_url_Inr_inv [OF n] obtain head where
    hd: "client_get_head env u = Inr head" "f = r_url head" by blast
  from c have "url out = f"
  proof
    assume "\<exists>t2. structured_attempt env f = (t2, Inr out)"
    then obtain t2 where "structured_attempt env f = (t2, Inr out)" by blast
    from structured_attempt_Inr_fields [OF this] show ?thesis by auto
  next
    assume "\<exists>t2 e t3. structured_attempt env f = (t2, Inl e) \<and>
           generic_fallback env f = (t3, Inr out)"
    then obtain t3 where "generic_fallback env f = (t3, Inr out)" by blast
    from generic_fallback_Inr_fields [OF this] show ?thesis by auto
  qed
  with hd show ?thesis by blast
qed

text \<open>
  The same theorem in the world where the fallback succeeds: the caller's URL is on a
  custom domain, the response's \<open>url\<close> is the address it redirects to.
\<close>

theorem url_is_final_url_witness:
  "url (projr (snd (get_post world_fallback ''https://custom.example.org/hello''))) =
     ''https://blog.example.com/p/hello'' \<and>
   client_get_head world_fallback ''https://custom.example.org/hello'' = Inr example_page"
  using url_is_final_url
    [of world_fallback "''https://custom.example.org/hello''"
        "fst (get_post world_fallback ''https://custom.example.org/hello'')"
        "projr (snd (get_post world_fallback ''https://custom.example.org/hello''))"]
  by (simp add: get_post_world_fallback world_fallback_fields)

end
